theory Spec2Isabelle
  imports Main "HOL-Library.List_Lexorder"
begin

section \<open>Python strings\<close>

text \<open>
  A Python \<open>str\<close> is a sequence of Unicode code points; \<open>len\<close>, slicing, \<open>find\<close> and the
  ordering used by \<open>sorted\<close> all count and compare code points.  A character is therefore
  modelled as its code point, a natural number, and a string as a list of them.  Lists are
  ordered lexicographically (a proper prefix is smaller), as Python orders strings.
\<close>

type_synonym pychar = nat
type_synonym pystr = "pychar list"

text \<open>ASCII literals of the source are written \<open>py ''...''\<close>.\<close>

definition py :: "string \<Rightarrow> pystr" where
  "py s = map of_char s"

text \<open>The characters for which \<open>str.isspace\<close> holds; \<open>str.strip()\<close> removes them at both ends.\<close>

definition is_space :: "pychar \<Rightarrow> bool" where
  "is_space c \<longleftrightarrow>
     (9 \<le> c \<and> c \<le> 13) \<or> (28 \<le> c \<and> c \<le> 32) \<or> c = 133 \<or> c = 160 \<or> c = 5760 \<or>
     (8192 \<le> c \<and> c \<le> 8202) \<or> c = 8232 \<or> c = 8233 \<or> c = 8239 \<or> c = 8287 \<or> c = 12288"

definition py_strip :: "pystr \<Rightarrow> pystr" where
  "py_strip s = rev (dropWhile is_space (rev (dropWhile is_space s)))"

fun starts_with :: "'a list \<Rightarrow> 'a list \<Rightarrow> bool" where
  "starts_with [] s = True"
| "starts_with (p # ps) [] = False"
| "starts_with (p # ps) (c # cs) = (p = c \<and> starts_with ps cs)"

text \<open>
  \<open>s.split(sep)\<close> for a non-empty separator: scan from the left, cut at every occurrence of
  \<open>sep\<close> that does not overlap the previous one.  \<open>acc\<close> is the piece being read.  (Python
  raises \<open>ValueError\<close> for an empty separator; the source only passes the literals
  \<open>'\n\n'\<close> and \<open>'\n'\<close>, and for an empty separator this function returns the text whole.)
\<close>

function py_split_acc :: "'a list \<Rightarrow> 'a list \<Rightarrow> 'a list \<Rightarrow> 'a list list" where
  "py_split_acc sep acc [] = [acc]"
| "py_split_acc sep acc (c # cs) =
     (if sep \<noteq> [] \<and> starts_with sep (c # cs)
      then acc # py_split_acc sep [] (drop (length sep) (c # cs))
      else py_split_acc sep (acc @ [c]) cs)"
  by pat_completeness auto
termination
  by (relation "measure (\<lambda>(sep, acc, s). length s)") auto

definition py_split :: "'a list \<Rightarrow> 'a list \<Rightarrow> 'a list list" where
  "py_split sep s = py_split_acc sep [] s"

text \<open>\<open>sep.join(parts)\<close>.\<close>

fun py_join :: "'a list \<Rightarrow> 'a list list \<Rightarrow> 'a list" where
  "py_join sep [] = []"
| "py_join sep [x] = x"
| "py_join sep (x # y # ys) = x @ sep @ py_join sep (y # ys)"

definition NL :: pystr where
  "NL = [10]"

definition NLNL :: pystr where
  "NLNL = [10, 10]"

section \<open>The three-parallel parser of app.py\<close>

text \<open>A paragraph dictionary \<open>{'wenyan': .., 'zh': .., 'en': ..}\<close>.\<close>

record paragraph_dict =
  p_wenyan :: pystr
  p_zh :: pystr
  p_en :: pystr

text \<open>The dictionary returned by \<open>parse_three_parallel_file\<close> of app.py.\<close>

record parsed =
  wenyan :: pystr
  zh :: pystr
  en :: pystr
  paragraphs :: "paragraph_dict list"

text \<open>The four lists the loop appends to.\<close>

record parts =
  wenyan_parts :: "pystr list"
  zh_parts :: "pystr list"
  en_parts :: "pystr list"
  paragraphs_acc :: "paragraph_dict list"

text \<open>\<open>[line.strip() for line in group.split('\n') if line.strip()]\<close>\<close>

definition group_lines :: "pystr \<Rightarrow> pystr list" where
  "group_lines grp = map py_strip (filter (\<lambda>line. py_strip line \<noteq> []) (py_split NL grp))"

definition append_group :: "pystr \<Rightarrow> pystr \<Rightarrow> pystr \<Rightarrow> parts \<Rightarrow> parts" where
  "append_group w z e st =
     st\<lparr> wenyan_parts := wenyan_parts st @ [w],
         zh_parts := zh_parts st @ [z],
         en_parts := en_parts st @ [e],
         paragraphs_acc := paragraphs_acc st @ [\<lparr>p_wenyan = w, p_zh = z, p_en = e\<rparr>] \<rparr>"

text \<open>One iteration of \<open>for group in paragraph_groups\<close>.\<close>

definition parse_group :: "pystr \<Rightarrow> parts \<Rightarrow> parts" where
  "parse_group grp st =
     (let lines = group_lines grp in
      if length lines \<ge> 3 then append_group (lines ! 0) (lines ! 1) (lines ! 2) st
      else if length lines = 2 then append_group (lines ! 0) (lines ! 1) [] st
      else if length lines = 1 then append_group (lines ! 0) [] [] st
      else st)"

definition no_parts :: parts where
  "no_parts = \<lparr>wenyan_parts = [], zh_parts = [], en_parts = [], paragraphs_acc = []\<rparr>"

definition empty_parsed :: parsed where
  "empty_parsed = \<lparr>wenyan = [], zh = [], en = [], paragraphs = []\<rparr>"

text \<open>
  The parser, on what \<open>f.read()\<close> returned: \<open>None\<close> stands for the \<open>FileNotFoundError\<close> the
  source catches.
\<close>

definition parse_three_parallel_file :: "pystr option \<Rightarrow> parsed" where
  "parse_three_parallel_file file =
     (case file of
        None \<Rightarrow> empty_parsed
      | Some raw \<Rightarrow>
          (let content = py_strip raw in
           if content = [] then empty_parsed
           else
             (let st = fold parse_group (py_split NLNL content) no_parts in
              \<lparr>wenyan = py_join NLNL (wenyan_parts st),
               zh = py_join NLNL (zh_parts st),
               en = py_join NLNL (en_parts st),
               paragraphs = paragraphs_acc st\<rparr>)))"

section \<open>The three-parallel parser of build\_static.py\<close>

text \<open>
  The static-export script has its own copy of the parser.  It returns a dictionary literal
  with three keys, and its caller reads the result by key, so here the dictionary is kept as
  the list of its key/value pairs and a read of a key that is not there is the \<open>KeyError\<close>
  Python raises.
\<close>

datatype pyerror =
    KeyError
  | FileNotFoundError
  | PermissionError
  | IsADirectoryError
  | UnicodeDecodeError

datatype pyval = VStr pystr | VInt nat | VParagraphs "paragraph_dict list"

type_synonym pydict = "(string \<times> pyval) list"

definition dict_get :: "pydict \<Rightarrow> string \<Rightarrow> pyerror + pyval" where
  "dict_get d k = (case map_of d k of None \<Rightarrow> Inl KeyError | Some v \<Rightarrow> Inr v)"

record bs_parts =
  bs_wenyan_parts :: "pystr list"
  bs_zh_parts :: "pystr list"
  bs_en_parts :: "pystr list"

definition bs_append_group :: "pystr \<Rightarrow> pystr \<Rightarrow> pystr \<Rightarrow> bs_parts \<Rightarrow> bs_parts" where
  "bs_append_group w z e st =
     st\<lparr> bs_wenyan_parts := bs_wenyan_parts st @ [w],
         bs_zh_parts := bs_zh_parts st @ [z],
         bs_en_parts := bs_en_parts st @ [e] \<rparr>"

definition bs_parse_group :: "pystr \<Rightarrow> bs_parts \<Rightarrow> bs_parts" where
  "bs_parse_group grp st =
     (let lines = group_lines grp in
      if length lines \<ge> 3 then bs_append_group (lines ! 0) (lines ! 1) (lines ! 2) st
      else if length lines = 2 then bs_append_group (lines ! 0) (lines ! 1) [] st
      else if length lines = 1 then bs_append_group (lines ! 0) [] [] st
      else st)"

definition bs_no_parts :: bs_parts where
  "bs_no_parts = \<lparr>bs_wenyan_parts = [], bs_zh_parts = [], bs_en_parts = []\<rparr>"

definition bs_empty_parsed :: pydict where
  "bs_empty_parsed = [(''wenyan'', VStr []), (''zh'', VStr []), (''en'', VStr [])]"

definition bs_parse_three_parallel_file :: "pystr option \<Rightarrow> pydict" where
  "bs_parse_three_parallel_file file =
     (case file of
        None \<Rightarrow> bs_empty_parsed
      | Some raw \<Rightarrow>
          (let content = py_strip raw in
           if content = [] then bs_empty_parsed
           else
             (let st = fold bs_parse_group (py_split NLNL content) bs_no_parts in
              [(''wenyan'', VStr (py_join NLNL (bs_wenyan_parts st))),
               (''zh'', VStr (py_join NLNL (bs_zh_parts st))),
               (''en'', VStr (py_join NLNL (bs_en_parts st)))])))"

section \<open>The corpus\<close>

text \<open>
  The dictionaries built by \<open>load_books_from_raw\<close> of app.py: chapters, categories and books.
  Every one is built by a literal with a fixed set of keys, so each is a record.
\<close>

record chapter_dict =
  ch_id :: nat
  ch_title :: pystr
  ch_wenyan :: pystr
  ch_zh :: pystr
  ch_en :: pystr
  ch_paragraphs :: "paragraph_dict list"

record category_dict =
  c_id :: pystr
  c_title :: pystr
  c_chapters :: "chapter_dict list"

record book_dict =
  b_id :: pystr
  b_title :: pystr
  b_categories :: "category_dict list"

section \<open>Search (app.py)\<close>

text \<open>
  Two functions of Python's library are parameters of the model, since their tables are
  not part of the program: \<open>str.lower\<close>, and the relation between a pattern character and a
  text character that \<open>re\<close> accepts under \<open>re.IGNORECASE\<close>.
\<close>

record pylib =
  str_lower :: "pystr \<Rightarrow> pystr"
  re_ignorecase_eq :: "pychar \<Rightarrow> pychar \<Rightarrow> bool"

text \<open>The ASCII part of both, for running the model on ASCII text.\<close>

definition ascii_lower_char :: "pychar \<Rightarrow> pychar" where
  "ascii_lower_char c = (if 65 \<le> c \<and> c \<le> 90 then c + 32 else c)"

definition ascii_lib :: pylib where
  "ascii_lib = \<lparr>str_lower = map ascii_lower_char,
                 re_ignorecase_eq = (\<lambda>p c. ascii_lower_char p = ascii_lower_char c)\<rparr>"

text \<open>
  The same with the capital dotted I, U+0130: \<open>str.lower\<close> turns it into the two code points
  \<open>i\<close> and U+0307, and under \<open>re.IGNORECASE\<close> it matches \<open>i\<close>, \<open>I\<close>, U+0130 and U+0131.
\<close>

definition dotted_lower_char :: "pychar \<Rightarrow> pystr" where
  "dotted_lower_char c = (if c = 304 then [105, 775] else [ascii_lower_char c])"

definition dotted_fold :: "pychar \<Rightarrow> pychar" where
  "dotted_fold c = (if c = 304 \<or> c = 305 then 105 else ascii_lower_char c)"

definition dotted_lib :: pylib where
  "dotted_lib = \<lparr>str_lower = (\<lambda>s. concat (map dotted_lower_char s)),
                  re_ignorecase_eq = (\<lambda>p c. dotted_fold p = dotted_fold c)\<rparr>"

text \<open>\<open>s.find(sub)\<close>: the least index at which \<open>sub\<close> occurs in \<open>s\<close>, or \<open>-1\<close>.\<close>

fun find_from :: "nat \<Rightarrow> 'a list \<Rightarrow> 'a list \<Rightarrow> int" where
  "find_from i sub [] = (if sub = [] then int i else - 1)"
| "find_from i sub (c # cs) =
     (if starts_with sub (c # cs) then int i else find_from (Suc i) sub cs)"

definition py_find :: "'a list \<Rightarrow> 'a list \<Rightarrow> int" where
  "py_find s sub = find_from 0 sub s"

text \<open>\<open>sub in s\<close>\<close>

definition py_in :: "'a list \<Rightarrow> 'a list \<Rightarrow> bool" where
  "py_in sub s \<longleftrightarrow> py_find s sub \<noteq> - 1"

text \<open>\<open>s[a:b]\<close>: a negative bound counts from the end, and both are clipped to the string.\<close>

definition slice_bound :: "'a list \<Rightarrow> int \<Rightarrow> nat" where
  "slice_bound s i =
     (if i < 0 then nat (max 0 (int (length s) + i)) else min (length s) (nat i))"

definition py_slice :: "'a list \<Rightarrow> int \<Rightarrow> int \<Rightarrow> 'a list" where
  "py_slice s a b = drop (slice_bound s a) (take (slice_bound s b) s)"

text \<open>
  \<open>re.sub('(' + re.escape(query) + ')', r'<mark>\1</mark>', text, flags=re.IGNORECASE)\<close>
  for a non-empty \<open>query\<close>: the pattern is the literal query, matched character by character
  up to case, at the leftmost positions that do not overlap.
\<close>

fun ignorecase_starts_with :: "(pychar \<Rightarrow> pychar \<Rightarrow> bool) \<Rightarrow> pystr \<Rightarrow> pystr \<Rightarrow> bool" where
  "ignorecase_starts_with same [] s = True"
| "ignorecase_starts_with same (p # ps) [] = False"
| "ignorecase_starts_with same (p # ps) (c # cs) = (same p c \<and> ignorecase_starts_with same ps cs)"

function re_sub_mark :: "(pychar \<Rightarrow> pychar \<Rightarrow> bool) \<Rightarrow> pystr \<Rightarrow> pystr \<Rightarrow> pystr" where
  "re_sub_mark same pat [] = []"
| "re_sub_mark same pat (c # cs) =
     (if pat \<noteq> [] \<and> ignorecase_starts_with same pat (c # cs)
      then py ''<mark>'' @ take (length pat) (c # cs) @ py ''</mark>''
             @ re_sub_mark same pat (drop (length pat) (c # cs))
      else c # re_sub_mark same pat cs)"
  by pat_completeness auto
termination
  by (relation "measure (\<lambda>(same, pat, s). length s)") auto

definition highlight_text :: "pylib \<Rightarrow> pystr \<Rightarrow> pystr \<Rightarrow> pystr" where
  "highlight_text L text query =
     (if query = [] \<or> text = [] then text
      else re_sub_mark (re_ignorecase_eq L) query text)"

text \<open>A match dictionary: its \<open>'type'\<close> key is the constructor.\<close>

datatype match =
    TitleMatch (m_content: pystr) (m_highlight: pystr)
  | ContentMatch (m_language: string) (m_paragraph_id: nat) (m_content: pystr)
      (m_highlight: pystr) (m_full_paragraph: paragraph_dict)

record result_dict =
  r_book :: book_dict
  r_category :: category_dict
  r_chapter :: chapter_dict
  r_matches :: "match list"
  relevance_score :: nat

text \<open>The body of \<open>for lang, text in [...]\<close>.\<close>

definition search_field ::
  "pylib \<Rightarrow> pystr \<Rightarrow> pystr \<Rightarrow> nat \<Rightarrow> paragraph_dict \<Rightarrow> string \<times> pystr \<Rightarrow> match list \<Rightarrow> match list"
where
  "search_field L query query_lower idx par lt matches =
     (let lang = fst lt; text = snd lt in
      if py_in query_lower (str_lower L text) then
        (let context_start = max 0 (py_find (str_lower L text) query_lower - 50);
             context_end = min (int (length text))
                             (py_find (str_lower L text) query_lower + int (length query) + 50);
             context = py_slice text context_start context_end
         in matches @ [ContentMatch lang (idx + 1) context (highlight_text L context query) par])
      else matches)"

text \<open>The body of \<open>for idx, paragraph in enumerate(...)\<close>.\<close>

definition search_paragraph ::
  "pylib \<Rightarrow> pystr \<Rightarrow> pystr \<Rightarrow> nat \<times> paragraph_dict \<Rightarrow> match list \<Rightarrow> match list"
where
  "search_paragraph L query query_lower ip matches =
     (let idx = fst ip; par = snd ip in
      fold (search_field L query query_lower idx par)
        [(''wenyan'', p_wenyan par), (''baihua'', p_zh par), (''english'', p_en par)] matches)"

text \<open>The list \<open>matches\<close> of one chapter.\<close>

definition chapter_matches :: "pylib \<Rightarrow> pystr \<Rightarrow> pystr \<Rightarrow> pystr \<Rightarrow> chapter_dict \<Rightarrow> match list" where
  "chapter_matches L query query_lower search_scope chapter =
     (let matches = [];
          matches =
            (if search_scope = py ''all'' \<or> search_scope = py ''title'' then
               (if py_in query_lower (str_lower L (ch_title chapter))
                then matches @ [TitleMatch (ch_title chapter)
                                  (highlight_text L (ch_title chapter) query)]
                else matches)
             else matches)
      in if search_scope = py ''all'' \<or> search_scope = py ''content'' then
           fold (search_paragraph L query query_lower)
             (List.enumerate 0 (ch_paragraphs chapter)) matches
         else matches)"

text \<open>The body of \<open>for chapter in category['chapters']\<close>.\<close>

definition search_chapter ::
  "pylib \<Rightarrow> pystr \<Rightarrow> pystr \<Rightarrow> pystr \<Rightarrow> book_dict \<Rightarrow> category_dict \<Rightarrow> chapter_dict
     \<Rightarrow> result_dict list \<Rightarrow> result_dict list"
where
  "search_chapter L query query_lower search_scope book category chapter results =
     (let matches = chapter_matches L query query_lower search_scope chapter in
      if matches \<noteq> [] then
        results @ [\<lparr>r_book = book, r_category = category, r_chapter = chapter,
                     r_matches = matches, relevance_score = length matches\<rparr>]
      else results)"

definition search_category ::
  "pylib \<Rightarrow> pystr \<Rightarrow> pystr \<Rightarrow> pystr \<Rightarrow> book_dict \<Rightarrow> category_dict
     \<Rightarrow> result_dict list \<Rightarrow> result_dict list"
where
  "search_category L query query_lower search_scope book category results =
     fold (search_chapter L query query_lower search_scope book category)
       (c_chapters category) results"

text \<open>
  The body of \<open>for book in BOOKS\<close>.  The filter is \<open>None\<close> or a string; \<open>if book_filter and ...\<close>
  takes the empty string as no filter.
\<close>

definition filter_skips :: "pystr option \<Rightarrow> book_dict \<Rightarrow> bool" where
  "filter_skips book_filter book \<longleftrightarrow>
     (case book_filter of None \<Rightarrow> False | Some f \<Rightarrow> f \<noteq> [] \<and> b_id book \<noteq> f)"

definition search_book ::
  "pylib \<Rightarrow> pystr \<Rightarrow> pystr \<Rightarrow> pystr \<Rightarrow> pystr option \<Rightarrow> book_dict
     \<Rightarrow> result_dict list \<Rightarrow> result_dict list"
where
  "search_book L query query_lower search_scope book_filter book results =
     (if filter_skips book_filter book
      then results
      else fold (search_category L query query_lower search_scope book)
             (b_categories book) results)"

text \<open>
  \<open>results.sort(key=..., reverse=True)\<close>: the list is reversed, sorted by a stable
  ascending sort, and reversed again.
\<close>

definition sort_reverse :: "('a \<Rightarrow> nat) \<Rightarrow> 'a list \<Rightarrow> 'a list" where
  "sort_reverse key xs = rev (sort_key key (rev xs))"

text \<open>\<open>search_in_books\<close>; the global \<open>BOOKS\<close> is its second argument.\<close>

definition search_in_books ::
  "pylib \<Rightarrow> book_dict list \<Rightarrow> pystr \<Rightarrow> pystr \<Rightarrow> pystr option \<Rightarrow> result_dict list"
where
  "search_in_books L BOOKS query search_scope book_filter =
     (let query_lower = py_strip (str_lower L query) in
      if query_lower = [] then []
      else sort_reverse relevance_score
             (fold (search_book L query query_lower search_scope book_filter) BOOKS []))"

section \<open>The file tree\<close>

text \<open>
  What the loaders see of the disk.  A file holds what \<open>f.read()\<close> returns: the decoded text, or
  the exception that \<open>open\<close> or \<open>read\<close> raises (no permission, bytes that are not UTF-8, a
  dangling link that is listed but cannot be opened).  A directory holds what \<open>os.listdir\<close>
  returns: its entries by name, or the exception raised when it may not be listed.
\<close>

datatype fnode =
    File "pyerror + pystr"
  | Dir "pyerror + (pystr \<times> fnode) list"

text \<open>\<open>os.path.join(path, name)\<close>: the entry of that name, if \<open>path\<close> is a listable directory.\<close>

definition path_join :: "fnode option \<Rightarrow> pystr \<Rightarrow> fnode option" where
  "path_join path name =
     (case path of
        Some (Dir (Inr entries)) \<Rightarrow> map_of entries name
      | _ \<Rightarrow> None)"

definition isdir :: "fnode option \<Rightarrow> bool" where
  "isdir path = (case path of Some (Dir _) \<Rightarrow> True | _ \<Rightarrow> False)"

text \<open>\<open>os.listdir(path)\<close>; the source calls it only where \<open>os.path.isdir(path)\<close> holds.\<close>

definition listdir :: "fnode option \<Rightarrow> pyerror + pystr list" where
  "listdir path =
     (case path of
        Some (Dir (Inr entries)) \<Rightarrow> Inr (map fst entries)
      | Some (Dir (Inl e)) \<Rightarrow> Inl e
      | _ \<Rightarrow> Inl FileNotFoundError)"

text \<open>\<open>open(path, 'r', encoding='utf-8').read()\<close>\<close>

definition read_text :: "fnode option \<Rightarrow> pyerror + pystr" where
  "read_text path =
     (case path of
        None \<Rightarrow> Inl FileNotFoundError
      | Some (File r) \<Rightarrow> r
      | Some (Dir _) \<Rightarrow> Inl IsADirectoryError)"

text \<open>Sequencing of statements that may raise, and a \<open>for\<close> loop whose body may raise.\<close>

definition bind_err :: "pyerror + 'a \<Rightarrow> ('a \<Rightarrow> pyerror + 'b) \<Rightarrow> pyerror + 'b" where
  "bind_err r k = (case r of Inl e \<Rightarrow> Inl e | Inr v \<Rightarrow> k v)"

fun fold_err :: "('a \<Rightarrow> 's \<Rightarrow> pyerror + 's) \<Rightarrow> 'a list \<Rightarrow> 's \<Rightarrow> pyerror + 's" where
  "fold_err body [] s = Inr s"
| "fold_err body (x # xs) s = bind_err (body x s) (fold_err body xs)"

definition py_endswith :: "'a list \<Rightarrow> 'a list \<Rightarrow> bool" where
  "py_endswith s suffix \<longleftrightarrow>
     length suffix \<le> length s \<and> drop (length s - length suffix) s = suffix"

text \<open>
  The chapter title: \<open>filename[:-4]\<close>, and \<open>split('_', 1)[1]\<close> of it if it holds an underscore
  (code point 95), which is what follows the first underscore.
\<close>

definition chapter_title_of :: "pystr \<Rightarrow> pystr" where
  "chapter_title_of filename =
     (let chapter_title = take (length filename - 4) filename in
      if 95 \<in> set chapter_title then tl (dropWhile (\<lambda>c. c \<noteq> 95) chapter_title)
      else chapter_title)"

text \<open>
  \<open>book_configs\<close>: the names of the four histories and of their categories, as code points.
\<close>

definition book_configs :: "(pystr \<times> pystr \<times> (pystr \<times> pystr) list) list" where
  "book_configs =
     [(py ''shiji'', [21490, 35760],
         [(py ''benji'', [26412, 32426]), (py ''shijia'', [19990, 23478]),
          (py ''liezhuan'', [21015, 20256]), (py ''shu'', [20070]), (py ''biao'', [34920])]),
      (py ''hanshu'', [27721, 20070],
         [(py ''benji'', [26412, 32426]), (py ''biao'', [34920]), (py ''zhi'', [24535]),
          (py ''liezhuan'', [21015, 20256])]),
      (py ''houhanshu'', [21518, 27721, 20070],
         [(py ''liezhuan'', [21015, 20256]), (py ''diji'', [24093, 32426]),
          (py ''shu'', [20070])]),
      (py ''sanguozhi'', [19977, 22269, 24535],
         [(py ''wei'', [39759, 20070]), (py ''shu'', [34560, 20070]),
          (py ''wu'', [21556, 20070])])]"

text \<open>\<open>book_configs.get(book_id, {"name": book_id, "categories": {}})\<close>\<close>

definition book_config_of :: "pystr \<Rightarrow> pystr \<times> (pystr \<times> pystr) list" where
  "book_config_of book_id =
     (case map_of book_configs book_id of Some cfg \<Rightarrow> cfg | None \<Rightarrow> (book_id, []))"

text \<open>\<open>book_config["categories"].get(cat_dir, cat_dir)\<close>\<close>

definition cat_title_of :: "pystr \<times> (pystr \<times> pystr) list \<Rightarrow> pystr \<Rightarrow> pystr" where
  "cat_title_of book_config cat_dir =
     (case map_of (snd book_config) cat_dir of Some t \<Rightarrow> t | None \<Rightarrow> cat_dir)"

section \<open>The hierarchy builder of app.py\<close>

text \<open>
  The call \<open>parse_three_parallel_file(file_path)\<close>: the parser catches \<open>FileNotFoundError\<close> and
  nothing else.
\<close>

definition parse_path :: "fnode option \<Rightarrow> pyerror + parsed" where
  "parse_path file_path =
     (case read_text file_path of
        Inr raw \<Rightarrow> Inr (parse_three_parallel_file (Some raw))
      | Inl FileNotFoundError \<Rightarrow> Inr (parse_three_parallel_file None)
      | Inl e \<Rightarrow> Inl e)"

text \<open>The body of \<open>for i, filename in enumerate(sorted(chapter_files))\<close>.\<close>

definition load_chapter ::
  "fnode option \<Rightarrow> nat \<times> pystr \<Rightarrow> chapter_dict list \<Rightarrow> pyerror + chapter_dict list"
where
  "load_chapter cat_path ifn chapters =
     (let i = fst ifn; filename = snd ifn;
          file_path = path_join cat_path filename;
          chapter_title = chapter_title_of filename
      in bind_err (parse_path file_path) (\<lambda>content.
           Inr (chapters @ [\<lparr>ch_id = i + 1, ch_title = chapter_title,
                              ch_wenyan = wenyan content, ch_zh = zh content,
                              ch_en = en content, ch_paragraphs = paragraphs content\<rparr>])))"

text \<open>The body of \<open>for cat_dir in sorted(os.listdir(book_path))\<close>.\<close>

definition load_category ::
  "pystr \<times> (pystr \<times> pystr) list \<Rightarrow> fnode option \<Rightarrow> pystr \<Rightarrow> category_dict list
     \<Rightarrow> pyerror + category_dict list"
where
  "load_category book_config book_path cat_dir categories =
     (let cat_path = path_join book_path cat_dir in
      if \<not> isdir cat_path then Inr categories
      else
        (let cat_title = cat_title_of book_config cat_dir in
         bind_err (listdir cat_path) (\<lambda>names.
           (let chapter_files = filter (\<lambda>f. py_endswith f (py ''.txt'')) names in
            bind_err (fold_err (load_chapter cat_path) (List.enumerate 0 (sort chapter_files)) [])
              (\<lambda>chapters.
                 if chapters \<noteq> [] then
                   Inr (categories @ [\<lparr>c_id = cat_dir, c_title = cat_title,
                                         c_chapters = chapters\<rparr>])
                 else Inr categories)))))"

text \<open>The body of \<open>for book_id in sorted(os.listdir(RAW_DIR))\<close>.\<close>

definition load_book ::
  "fnode option \<Rightarrow> pystr \<Rightarrow> book_dict list \<Rightarrow> pyerror + book_dict list"
where
  "load_book raw_dir book_id books =
     (let book_path = path_join raw_dir book_id in
      if \<not> isdir book_path then Inr books
      else
        (let book_config = book_config_of book_id;
             book_title = fst book_config
         in bind_err (listdir book_path) (\<lambda>names.
              bind_err (fold_err (load_category book_config book_path) (sort names) [])
                (\<lambda>categories.
                   if categories \<noteq> [] then
                     Inr (books @ [\<lparr>b_id = book_id, b_title = book_title,
                                      b_categories = categories\<rparr>])
                   else Inr books))))"

text \<open>\<open>load_books_from_raw\<close> of app.py, on what is at \<open>RAW_DIR\<close> (\<open>None\<close>: nothing).\<close>

definition load_books_from_raw :: "fnode option \<Rightarrow> pyerror + book_dict list" where
  "load_books_from_raw raw_dir =
     (if \<not> isdir raw_dir then Inr []
      else bind_err (listdir raw_dir) (\<lambda>names. fold_err (load_book raw_dir) (sort names) []))"

section \<open>The hierarchy builder of build\_static.py\<close>

text \<open>
  The static-export script builds chapters with the same dictionary literal as app.py, from what
  its own parser returns; chapters are kept as key/value lists, like that parser's result.
\<close>

record bs_category_dict =
  bs_cat_id :: pystr
  bs_cat_title :: pystr
  bs_cat_chapters :: "pydict list"

record bs_book_dict =
  bs_book_id :: pystr
  bs_book_title :: pystr
  bs_book_categories :: "bs_category_dict list"

definition bs_parse_path :: "fnode option \<Rightarrow> pyerror + pydict" where
  "bs_parse_path file_path =
     (case read_text file_path of
        Inr raw \<Rightarrow> Inr (bs_parse_three_parallel_file (Some raw))
      | Inl FileNotFoundError \<Rightarrow> Inr (bs_parse_three_parallel_file None)
      | Inl e \<Rightarrow> Inl e)"

definition bs_load_chapter ::
  "fnode option \<Rightarrow> nat \<times> pystr \<Rightarrow> pydict list \<Rightarrow> pyerror + pydict list"
where
  "bs_load_chapter cat_path ifn chapters =
     (let i = fst ifn; filename = snd ifn;
          file_path = path_join cat_path filename;
          chapter_title = chapter_title_of filename
      in bind_err (bs_parse_path file_path) (\<lambda>content.
         bind_err (dict_get content ''wenyan'') (\<lambda>w.
         bind_err (dict_get content ''zh'') (\<lambda>z.
         bind_err (dict_get content ''en'') (\<lambda>e.
         bind_err (dict_get content ''paragraphs'') (\<lambda>ps.
           Inr (chapters @ [[(''id'', VInt (i + 1)), (''title'', VStr chapter_title),
                             (''wenyan'', w), (''zh'', z), (''en'', e),
                             (''paragraphs'', ps)]])))))))"

definition bs_load_category ::
  "pystr \<times> (pystr \<times> pystr) list \<Rightarrow> fnode option \<Rightarrow> pystr \<Rightarrow> bs_category_dict list
     \<Rightarrow> pyerror + bs_category_dict list"
where
  "bs_load_category book_config book_path cat_dir categories =
     (let cat_path = path_join book_path cat_dir in
      if \<not> isdir cat_path then Inr categories
      else
        (let cat_title = cat_title_of book_config cat_dir in
         bind_err (listdir cat_path) (\<lambda>names.
           (let chapter_files = filter (\<lambda>f. py_endswith f (py ''.txt'')) names in
            bind_err (fold_err (bs_load_chapter cat_path)
                        (List.enumerate 0 (sort chapter_files)) [])
              (\<lambda>chapters.
                 if chapters \<noteq> [] then
                   Inr (categories @ [\<lparr>bs_cat_id = cat_dir, bs_cat_title = cat_title,
                                         bs_cat_chapters = chapters\<rparr>])
                 else Inr categories)))))"

text \<open>
  The body of \<open>for book_id in sorted(os.listdir(RAW_DIR))\<close>.  Its \<open>else\<close> branch, for the old
  layout of three files per book, is the parameter \<open>old_format\<close>: what it appends for a book
  directory without category directories, or the exception it raises.
\<close>

definition bs_load_book ::
  "(pystr \<Rightarrow> fnode option \<Rightarrow> pyerror + bs_book_dict) \<Rightarrow> fnode option \<Rightarrow> pystr
     \<Rightarrow> bs_book_dict list \<Rightarrow> pyerror + bs_book_dict list"
where
  "bs_load_book old_format raw_dir book_id books =
     (let book_path = path_join raw_dir book_id in
      if \<not> isdir book_path then Inr books
      else
        bind_err (listdir book_path) (\<lambda>items.
          (let has_categories =
                 list_ex (\<lambda>item. isdir (path_join book_path item))
                   (filter (\<lambda>item. \<not> py_endswith item (py ''.txt'')) items)
           in if has_categories then
                (let book_config = book_config_of book_id;
                     book_title = fst book_config
                 in bind_err (listdir book_path) (\<lambda>names.
                      bind_err (fold_err (bs_load_category book_config book_path)
                                  (sort names) [])
                        (\<lambda>categories.
                           if categories \<noteq> [] then
                             Inr (books @ [\<lparr>bs_book_id = book_id, bs_book_title = book_title,
                                              bs_book_categories = categories\<rparr>])
                           else Inr books)))
              else bind_err (old_format book_id book_path) (\<lambda>b. Inr (books @ [b])))))"

definition bs_load_books_from_raw ::
  "(pystr \<Rightarrow> fnode option \<Rightarrow> pyerror + bs_book_dict) \<Rightarrow> fnode option
     \<Rightarrow> pyerror + bs_book_dict list"
where
  "bs_load_books_from_raw old_format raw_dir =
     (if \<not> isdir raw_dir then Inr []
      else bind_err (listdir raw_dir)
             (\<lambda>names. fold_err (bs_load_book old_format raw_dir) (sort names) []))"

section \<open>Auxiliary notions\<close>

text \<open>What one paragraph group adds to the paragraph list.\<close>

definition group_paragraphs :: "pystr \<Rightarrow> paragraph_dict list" where
  "group_paragraphs grp = paragraphs_acc (parse_group grp no_parts)"

text \<open>
  The corpus walk: every chapter with its book and category, in book order, then category
  order, then chapter order.
\<close>

definition traversal :: "book_dict list \<Rightarrow> (book_dict \<times> category_dict \<times> chapter_dict) list" where
  "traversal BOOKS =
     concat (map (\<lambda>b. concat (map (\<lambda>c. map (\<lambda>ch. (b, c, ch)) (c_chapters c))
                                  (b_categories b))) BOOKS)"

text \<open>What the walk appends to \<open>results\<close> at one chapter.\<close>

definition visit ::
  "pylib \<Rightarrow> pystr \<Rightarrow> pystr \<Rightarrow> pystr \<Rightarrow> pystr option
     \<Rightarrow> book_dict \<times> category_dict \<times> chapter_dict \<Rightarrow> result_dict list"
where
  "visit L q ql sc f t =
     (case t of (b, c, ch) \<Rightarrow>
        if filter_skips f b \<or> chapter_matches L q ql sc ch = [] then []
        else [\<lparr>r_book = b, r_category = c, r_chapter = ch,
               r_matches = chapter_matches L q ql sc ch,
               relevance_score = length (chapter_matches L q ql sc ch)\<rparr>])"



section \<open>Example inputs\<close>

text \<open>
  A file with a four-line group, a one-line group and a two-line group behind a run of three
  newlines; a tree with one book of three chapters, an empty category, a category without
  chapter files, a book with nothing but an empty category, and a file at the top; the corpus
  that app.py builds from that tree; and a corpus whose one paragraph is \<open>i\<close>, U+0307 and
  sixty \<open>b\<close>.
\<close>

definition ex_raw :: pystr where
  "ex_raw = py '' a'' @ NL @ py '' b '' @ NL @ py ''c'' @ NL @ py ''d'' @ NLNL @ py ''x'' @ NLNL @ NL
              @ py ''y'' @ NL @ py ''z'' @ NL"

definition ex_text :: pystr where
  "ex_text = py ''Huang Di'' @ NL @ py ''huang di ye'' @ NL @ py ''The Yellow Emperor'' @ NL"

definition ex_tree :: fnode where
  "ex_tree = Dir (Inr
     [(py ''zbook'', Dir (Inr [(py ''empty'', Dir (Inr []))])),
      (py ''readme.txt'', File (Inr ex_text)),
      (py ''shiji'', Dir (Inr
         [(py ''shijia'', Dir (Inr [(py ''notes.md'', File (Inr ex_text))])),
          (py ''benji'', Dir (Inr
             [(py ''03_Xia.txt'', File (Inr ex_text)),
              (py ''01_Wudi.txt'', File (Inr ex_text)),
              (py ''02_Huang.txt'', File (Inr ex_text))]))]))])"

definition ex_paragraph :: paragraph_dict where
  "ex_paragraph = \<lparr>p_wenyan = py ''Huang Di'', p_zh = py ''huang di ye'',
                    p_en = py ''The Yellow Emperor''\<rparr>"

definition ex_chapter :: "nat \<Rightarrow> pystr \<Rightarrow> chapter_dict" where
  "ex_chapter i title =
     \<lparr>ch_id = i, ch_title = title, ch_wenyan = py ''Huang Di'', ch_zh = py ''huang di ye'',
      ch_en = py ''The Yellow Emperor'', ch_paragraphs = [ex_paragraph]\<rparr>"

definition ex_category :: category_dict where
  "ex_category = \<lparr>c_id = py ''benji'', c_title = [26412, 32426],
                   c_chapters = [ex_chapter 1 (py ''Wudi''), ex_chapter 2 (py ''Huang''),
                                 ex_chapter 3 (py ''Xia'')]\<rparr>"

definition ex_book :: book_dict where
  "ex_book = \<lparr>b_id = py ''shiji'', b_title = [21490, 35760], b_categories = [ex_category]\<rparr>"


definition ex_dotted_text :: pystr where
  "ex_dotted_text =
     [105, 775] @ py ''bbbbbbbbbbbbbbbbbbbbbbbbbbbbbbbbbbbbbbbbbbbbbbbbbbbbbbbbbbbb''"

definition ex_dotted_book :: book_dict where
  "ex_dotted_book =
     \<lparr>b_id = py ''shiji'', b_title = [21490, 35760],
      b_categories =
        [\<lparr>c_id = py ''benji'', c_title = [26412, 32426],
          c_chapters =
            [\<lparr>ch_id = 1, ch_title = py ''Wudi'', ch_wenyan = ex_dotted_text, ch_zh = [],
              ch_en = [],
              ch_paragraphs = [\<lparr>p_wenyan = ex_dotted_text, p_zh = [], p_en = []\<rparr>]\<rparr>]\<rparr>]\<rparr>"

section \<open>Properties of the parsers\<close>

lemma parse_group_paragraphs:
  "paragraphs_acc (parse_group grp st) = paragraphs_acc st @ group_paragraphs grp"
  by (simp add: group_paragraphs_def parse_group_def append_group_def no_parts_def Let_def)

lemma fold_parse_group_paragraphs:
  "paragraphs_acc (fold parse_group gs st) = paragraphs_acc st @ concat (map group_paragraphs gs)"
  by (induction gs arbitrary: st) (simp_all add: parse_group_paragraphs)

lemma parse_group_wenyan:
  "wenyan_parts (parse_group grp st) = wenyan_parts st @ map p_wenyan (group_paragraphs grp)"
  by (simp add: group_paragraphs_def parse_group_def append_group_def no_parts_def Let_def)

lemma parse_group_zh:
  "zh_parts (parse_group grp st) = zh_parts st @ map p_zh (group_paragraphs grp)"
  by (simp add: group_paragraphs_def parse_group_def append_group_def no_parts_def Let_def)

lemma parse_group_en:
  "en_parts (parse_group grp st) = en_parts st @ map p_en (group_paragraphs grp)"
  by (simp add: group_paragraphs_def parse_group_def append_group_def no_parts_def Let_def)

lemma fold_parse_group_wenyan:
  "wenyan_parts (fold parse_group gs st) =
     wenyan_parts st @ map p_wenyan (concat (map group_paragraphs gs))"
  by (induction gs arbitrary: st) (simp_all add: parse_group_wenyan)

lemma fold_parse_group_zh:
  "zh_parts (fold parse_group gs st) = zh_parts st @ map p_zh (concat (map group_paragraphs gs))"
  by (induction gs arbitrary: st) (simp_all add: parse_group_zh)

lemma fold_parse_group_en:
  "en_parts (fold parse_group gs st) = en_parts st @ map p_en (concat (map group_paragraphs gs))"
  by (induction gs arbitrary: st) (simp_all add: parse_group_en)

lemma bs_parse_group_wenyan:
  "bs_wenyan_parts (bs_parse_group grp st) = bs_wenyan_parts st @ map p_wenyan (group_paragraphs grp)"
  by (simp add: group_paragraphs_def parse_group_def bs_parse_group_def append_group_def
      bs_append_group_def no_parts_def Let_def)

lemma bs_parse_group_zh:
  "bs_zh_parts (bs_parse_group grp st) = bs_zh_parts st @ map p_zh (group_paragraphs grp)"
  by (simp add: group_paragraphs_def parse_group_def bs_parse_group_def append_group_def
      bs_append_group_def no_parts_def Let_def)

lemma bs_parse_group_en:
  "bs_en_parts (bs_parse_group grp st) = bs_en_parts st @ map p_en (group_paragraphs grp)"
  by (simp add: group_paragraphs_def parse_group_def bs_parse_group_def append_group_def
      bs_append_group_def no_parts_def Let_def)

lemma fold_bs_parse_group_wenyan:
  "bs_wenyan_parts (fold bs_parse_group gs st) =
     bs_wenyan_parts st @ map p_wenyan (concat (map group_paragraphs gs))"
  by (induction gs arbitrary: st) (simp_all add: bs_parse_group_wenyan)

lemma fold_bs_parse_group_zh:
  "bs_zh_parts (fold bs_parse_group gs st) =
     bs_zh_parts st @ map p_zh (concat (map group_paragraphs gs))"
  by (induction gs arbitrary: st) (simp_all add: bs_parse_group_zh)

lemma fold_bs_parse_group_en:
  "bs_en_parts (fold bs_parse_group gs st) =
     bs_en_parts st @ map p_en (concat (map group_paragraphs gs))"
  by (induction gs arbitrary: st) (simp_all add: bs_parse_group_en)

lemma group_paragraphs_cases:
  "group_paragraphs grp =
     (let ls = group_lines grp in
      if 3 \<le> length ls then [\<lparr>p_wenyan = ls ! 0, p_zh = ls ! 1, p_en = ls ! 2\<rparr>]
      else if length ls = 2 then [\<lparr>p_wenyan = ls ! 0, p_zh = ls ! 1, p_en = []\<rparr>]
      else if length ls = 1 then [\<lparr>p_wenyan = ls ! 0, p_zh = [], p_en = []\<rparr>]
      else [])"
  by (simp add: group_paragraphs_def parse_group_def append_group_def no_parts_def Let_def)

lemma py_split_acc_nonempty: "py_split_acc sep acc s \<noteq> []"
  by (induction sep acc s rule: py_split_acc.induct) simp_all

lemma py_split_Nil: "py_split sep [] = [[]]"
  by (simp add: py_split_def)

lemma group_lines_Nil: "group_lines [] = []"
  by (simp add: group_lines_def py_split_Nil py_strip_def)

lemma paragraphs_parse:
  "paragraphs (parse_three_parallel_file (Some raw)) =
     concat (map group_paragraphs (py_split NLNL (py_strip raw)))"
proof (cases "py_strip raw = []")
  case True
  then show ?thesis
    by (simp add: parse_three_parallel_file_def empty_parsed_def py_split_Nil
        group_paragraphs_cases group_lines_Nil)
next
  case False
  then show ?thesis
    by (simp add: parse_three_parallel_file_def Let_def fold_parse_group_paragraphs no_parts_def)
qed

section \<open>Search: the walk and the sort\<close>

lemma fold_search_chapter:
  "fold (search_chapter L q ql sc b c) chs results =
     results @ concat (map (\<lambda>ch. search_chapter L q ql sc b c ch []) chs)"
  by (induction chs arbitrary: results) (simp_all add: search_chapter_def Let_def)

lemma fold_search_category:
  "fold (search_category L q ql sc b) cs results =
     results @ concat (map (\<lambda>c. concat (map (\<lambda>ch. search_chapter L q ql sc b c ch [])
                                            (c_chapters c))) cs)"
  by (induction cs arbitrary: results) (simp_all add: search_category_def fold_search_chapter)

lemma concat_map_concat:
  "concat (map g (concat xss)) = concat (map (\<lambda>xs. concat (map g xs)) xss)"
  by (induction xss) simp_all

lemma search_chapter_visit:
  "\<not> filter_skips f b \<Longrightarrow> search_chapter L q ql sc b c ch [] = visit L q ql sc f (b, c, ch)"
  by (simp add: search_chapter_def visit_def Let_def)

lemma visit_skipped: "filter_skips f b \<Longrightarrow> visit L q ql sc f (b, c, ch) = []"
  by (simp add: visit_def)

lemma search_book_visit:
  "search_book L q ql sc f b results =
     results @ concat (map (visit L q ql sc f)
        (concat (map (\<lambda>c. map (\<lambda>ch. (b, c, ch)) (c_chapters c)) (b_categories b))))"
proof (cases "filter_skips f b")
  case True
  then show ?thesis
    by (simp add: search_book_def concat_map_concat comp_def visit_skipped)
next
  case False
  then show ?thesis
    by (simp add: search_book_def fold_search_category concat_map_concat comp_def
        search_chapter_visit)
qed

lemma fold_search_book:
  "fold (search_book L q ql sc f) bs results =
     results @ concat (map (visit L q ql sc f) (traversal bs))"
proof (induction bs arbitrary: results)
  case Nil
  then show ?case by (simp add: traversal_def)
next
  case (Cons b bs)
  have "traversal (b # bs) =
      concat (map (\<lambda>c. map (\<lambda>ch. (b, c, ch)) (c_chapters c)) (b_categories b)) @ traversal bs"
    by (simp add: traversal_def)
  then show ?case
    using Cons.IH by (simp add: search_book_visit)
qed

lemma search_in_books_walk:
  "py_strip (str_lower L q) \<noteq> [] \<Longrightarrow>
   search_in_books L BOOKS q sc f =
     sort_reverse relevance_score
       (concat (map (visit L q (py_strip (str_lower L q)) sc f) (traversal BOOKS)))"
  by (simp add: search_in_books_def Let_def fold_search_book)

lemma search_in_books_empty_query:
  "py_strip (str_lower L q) = [] \<Longrightarrow> search_in_books L BOOKS q sc f = []"
  by (simp add: search_in_books_def)

lemma sorted_sort_reverse:
  "sorted_wrt (\<lambda>r s. key s \<le> key r) (sort_reverse key xs)"
proof -
  have "sorted (map key (sort_key key (rev xs)))"
    by (rule sorted_sort_key)
  then have "sorted_wrt (\<lambda>x y. key x \<le> key y) (sort_key key (rev xs))"
    by (simp add: sorted_map)
  then show ?thesis
    by (simp add: sort_reverse_def sorted_wrt_rev)
qed

lemma filter_sort_reverse:
  "filter (\<lambda>r. key r = k) (sort_reverse key xs) = filter (\<lambda>r. key r = k) xs"
proof -
  have "filter (\<lambda>r. key r = k) (sort_reverse key xs) =
        rev (filter (\<lambda>r. key r = k) (sort_key key (rev xs)))"
    by (simp add: sort_reverse_def rev_filter)
  also have "\<dots> = rev (filter (\<lambda>r. key r = k) (rev xs))"
    by (simp only: sort_key_stable)
  also have "\<dots> = filter (\<lambda>r. key r = k) xs"
    by (simp add: rev_filter)
  finally show ?thesis .
qed

lemma set_sort_reverse: "set (sort_reverse key xs) = set xs"
  by (simp add: sort_reverse_def)

lemma filter_visit:
  "0 < k \<Longrightarrow>
   map (\<lambda>r. (r_book r, r_category r, r_chapter r))
     (filter (\<lambda>r. relevance_score r = k) (concat (map (visit L q ql sc f) ts))) =
   filter (\<lambda>t. case t of (b, c, ch) \<Rightarrow>
             \<not> filter_skips f b \<and> length (chapter_matches L q ql sc ch) = k) ts"
  by (induction ts) (auto simp: visit_def split: if_splits)

lemma chapter_matches_other_scope:
  "sc \<noteq> py ''all'' \<Longrightarrow> sc \<noteq> py ''title'' \<Longrightarrow> sc \<noteq> py ''content'' \<Longrightarrow>
   chapter_matches L q ql sc ch = []"
  by (simp add: chapter_matches_def)

section \<open>The builder's loops\<close>




section \<open>The examples, evaluated\<close>

lemmas ex_eval =
  py_strip_def ascii_lib_def ascii_lower_char_def is_space_def py_def py_in_def py_find_def
  chapter_matches_def search_paragraph_def search_field_def highlight_text_def py_slice_def
  slice_bound_def ex_chapter_def ex_paragraph_def ex_book_def ex_category_def Let_def
  List.enumerate_eq_zip search_in_books_def search_book_def search_category_def
  search_chapter_def filter_skips_def sort_reverse_def

lemma ex_search_scores:
  "map (\<lambda>r. (ch_id (r_chapter r), relevance_score r))
     (search_in_books ascii_lib [ex_book] (py ''Huang'') (py ''all'') None) =
   [(2, 3), (1, 2), (3, 2)]"
  by (simp add: ex_eval)

lemma ex_search_empty_filter:
  "map (b_id \<circ> r_book)
     (search_in_books ascii_lib [ex_book] (py ''Huang'') (py ''all'') (Some [])) =
   [py ''shiji'', py ''shiji'', py ''shiji'']"
  by (simp add: ex_eval)


lemma ex_query_lower: "py_strip (str_lower ascii_lib (py ''Huang'')) = py ''huang''"
  by (simp add: py_strip_def ascii_lib_def ascii_lower_char_def is_space_def py_def)

lemma ex_traversal:
  "traversal [ex_book] =
     [(ex_book, ex_category, ex_chapter 1 (py ''Wudi'')),
      (ex_book, ex_category, ex_chapter 2 (py ''Huang'')),
      (ex_book, ex_category, ex_chapter 3 (py ''Xia''))]"
  by (simp add: traversal_def ex_book_def ex_category_def)

lemma ex_matches_length:
  "length (chapter_matches ascii_lib (py ''Huang'') (py ''huang'') (py ''all'')
             (ex_chapter 1 (py ''Wudi''))) = 2"
  "length (chapter_matches ascii_lib (py ''Huang'') (py ''huang'') (py ''all'')
             (ex_chapter 2 (py ''Huang''))) = 3"
  "length (chapter_matches ascii_lib (py ''Huang'') (py ''huang'') (py ''all'')
             (ex_chapter 3 (py ''Xia''))) = 2"
  by (simp_all add: ex_eval)

section \<open>Parser claims\<close>

text \<open>
  C1.  The paragraph list of a parsed file is made group by group, over the groups that
  splitting the trimmed content at \<open>'\n\n'\<close> gives: a group with three or more non-empty
  trimmed lines gives one paragraph whose three fields are its first three lines (further lines
  are dropped), a group with two lines gives a paragraph with an empty translation, a group with
  one line a paragraph with empty vernacular and translation, and a group with no such line
  gives nothing.  The fields of a paragraph are always strings.
\<close>

theorem parse_paragraphs_by_group:
  "paragraphs (parse_three_parallel_file (Some raw)) =
     concat (map (\<lambda>grp. let ls = group_lines grp in
                   if 3 \<le> length ls then [\<lparr>p_wenyan = ls ! 0, p_zh = ls ! 1, p_en = ls ! 2\<rparr>]
                   else if length ls = 2 then [\<lparr>p_wenyan = ls ! 0, p_zh = ls ! 1, p_en = []\<rparr>]
                   else if length ls = 1 then [\<lparr>p_wenyan = ls ! 0, p_zh = [], p_en = []\<rparr>]
                   else [])
              (py_split NLNL (py_strip raw)))"
proof -
  have "group_paragraphs = (\<lambda>grp. let ls = group_lines grp in
                   if 3 \<le> length ls then [\<lparr>p_wenyan = ls ! 0, p_zh = ls ! 1, p_en = ls ! 2\<rparr>]
                   else if length ls = 2 then [\<lparr>p_wenyan = ls ! 0, p_zh = ls ! 1, p_en = []\<rparr>]
                   else if length ls = 1 then [\<lparr>p_wenyan = ls ! 0, p_zh = [], p_en = []\<rparr>]
                   else [])"
    by (rule ext) (rule group_paragraphs_cases)
  then show ?thesis
    using paragraphs_parse [of raw] by simp
qed

theorem parse_paragraphs_by_group_witness:
  "paragraphs (parse_three_parallel_file (Some ex_raw)) =
     [\<lparr>p_wenyan = py ''a'', p_zh = py ''b'', p_en = py ''c''\<rparr>,
      \<lparr>p_wenyan = py ''x'', p_zh = [], p_en = []\<rparr>,
      \<lparr>p_wenyan = py ''y'', p_zh = py ''z'', p_en = []\<rparr>]"
  unfolding parse_paragraphs_by_group [of ex_raw]
  by (simp add: ex_raw_def group_lines_def py_split_def py_strip_def is_space_def NL_def NLNL_def
      py_def)

text \<open>
  C7.  Each full-text string of a parsed file is the join, with \<open>'\n\n'\<close>, of that field over the
  paragraphs in order; a paragraph whose field is empty still adds an (empty) segment.
\<close>

theorem parse_full_text_is_join:
  "wenyan (parse_three_parallel_file file) =
     py_join NLNL (map p_wenyan (paragraphs (parse_three_parallel_file file))) \<and>
   zh (parse_three_parallel_file file) =
     py_join NLNL (map p_zh (paragraphs (parse_three_parallel_file file))) \<and>
   en (parse_three_parallel_file file) =
     py_join NLNL (map p_en (paragraphs (parse_three_parallel_file file)))"
  by (simp add: parse_three_parallel_file_def empty_parsed_def Let_def no_parts_def
      fold_parse_group_paragraphs fold_parse_group_wenyan fold_parse_group_zh fold_parse_group_en
      split: option.split)

text \<open>
  C9.  The parser of app.py and the parser of build\_static.py return the same \<open>wenyan\<close>, \<open>zh\<close>
  and \<open>en\<close> strings on the same file content (or missing file).
\<close>

theorem parsers_agree:
  "dict_get (bs_parse_three_parallel_file file) ''wenyan'' =
     Inr (VStr (wenyan (parse_three_parallel_file file))) \<and>
   dict_get (bs_parse_three_parallel_file file) ''zh'' =
     Inr (VStr (zh (parse_three_parallel_file file))) \<and>
   dict_get (bs_parse_three_parallel_file file) ''en'' =
     Inr (VStr (en (parse_three_parallel_file file)))"
  by (simp add: parse_three_parallel_file_def bs_parse_three_parallel_file_def dict_get_def
      empty_parsed_def bs_empty_parsed_def Let_def no_parts_def bs_no_parts_def
      fold_parse_group_wenyan fold_parse_group_zh fold_parse_group_en
      fold_bs_parse_group_wenyan fold_bs_parse_group_zh fold_bs_parse_group_en
      split: option.split)

section \<open>Search claims\<close>

text \<open>
  C3.  The claim is that the context of a content match is the fifty characters before and the
  fifty characters after the first occurrence of the query.  The end of the window is computed
  from the length of the query as passed, while the occurrence is that of the lower-cased
  query.  The query U+0130 has one code point and its lower-cased form two; the field below
  contains that form at index 0, and the context is the first fifty-one of its sixty-two
  characters: the occurrence and forty-nine characters after it.
\<close>

theorem context_window_overshoots:
  "str_lower dotted_lib [304] = [105, 775] \<and>
   py_in [105, 775] ex_dotted_text \<and>
   py_find ex_dotted_text [105, 775] = 0 \<and>
   length ex_dotted_text = 62 \<and>
   map (map m_content \<circ> r_matches)
     (search_in_books dotted_lib [ex_dotted_book] [304] (py ''content'') None) =
   [[[105, 775] @ py ''bbbbbbbbbbbbbbbbbbbbbbbbbbbbbbbbbbbbbbbbbbbbbbbbb'']]"
  by (simp add: py_strip_def dotted_lib_def dotted_lower_char_def dotted_fold_def
      ascii_lower_char_def is_space_def py_def py_in_def py_find_def chapter_matches_def
      search_paragraph_def search_field_def highlight_text_def py_slice_def slice_bound_def
      Let_def List.enumerate_eq_zip search_in_books_def search_book_def search_category_def
      search_chapter_def filter_skips_def sort_reverse_def ex_dotted_book_def ex_dotted_text_def)

text \<open>
  C4.  The result list is in non-increasing order of relevance score, and for each score the
  results with that score are, in order, exactly the chapters of the corpus walk (book, then
  category, then chapter order) that the filter leaves in and that have that many matches.
\<close>

theorem search_sorted_stable:
  "sorted_wrt (\<lambda>r s. relevance_score s \<le> relevance_score r) (search_in_books L BOOKS q sc f) \<and>
   (py_strip (str_lower L q) \<noteq> [] \<and> 0 < k \<longrightarrow>
      map (\<lambda>r. (r_book r, r_category r, r_chapter r))
        (filter (\<lambda>r. relevance_score r = k) (search_in_books L BOOKS q sc f)) =
      filter (\<lambda>t. case t of (b, c, ch) \<Rightarrow>
                \<not> filter_skips f b \<and>
                length (chapter_matches L q (py_strip (str_lower L q)) sc ch) = k)
        (traversal BOOKS))"
proof (cases "py_strip (str_lower L q) = []")
  case True
  then show ?thesis by (simp add: search_in_books_empty_query)
next
  case False
  then show ?thesis
    by (simp add: search_in_books_walk sorted_sort_reverse filter_sort_reverse filter_visit)
qed

theorem search_sorted_stable_witness:
  "py_strip (str_lower ascii_lib (py ''Huang'')) \<noteq> [] \<and> (0::nat) < 2 \<and>
   sorted_wrt (\<lambda>r s. relevance_score s \<le> relevance_score r)
     (search_in_books ascii_lib [ex_book] (py ''Huang'') (py ''all'') None) \<and>
   map (\<lambda>r. (r_book r, r_category r, r_chapter r))
     (filter (\<lambda>r. relevance_score r = 2)
        (search_in_books ascii_lib [ex_book] (py ''Huang'') (py ''all'') None)) =
     [(ex_book, ex_category, ex_chapter 1 (py ''Wudi'')),
      (ex_book, ex_category, ex_chapter 3 (py ''Xia''))]"
proof -
  have h: "py_strip (str_lower ascii_lib (py ''Huang'')) \<noteq> [] \<and> (0::nat) < 2"
    unfolding ex_query_lower by (simp add: py_def)
  have walk: "filter (\<lambda>t. case t of (b, c, ch) \<Rightarrow>
                  \<not> filter_skips None b \<and>
                  length (chapter_matches ascii_lib (py ''Huang'')
                            (py_strip (str_lower ascii_lib (py ''Huang''))) (py ''all'') ch) = 2)
                (traversal [ex_book]) =
              [(ex_book, ex_category, ex_chapter 1 (py ''Wudi'')),
               (ex_book, ex_category, ex_chapter 3 (py ''Xia''))]"
    unfolding ex_traversal ex_query_lower
    by (simp add: ex_matches_length filter_skips_def del: One_nat_def)
  from search_sorted_stable [of ascii_lib "[ex_book]" "py ''Huang''" "py ''all''" None 2] h walk
  show ?thesis by simp
qed

text \<open>
  C5.  For a query that is not blank, every result is a chapter of the corpus whose match list
  is not empty, and its score is the length of that list (one per title match, one per content
  match); and every chapter of the corpus that the filter leaves in and that has a match is in
  the result list.
\<close>

theorem search_result_iff_matches:
  assumes "py_strip (str_lower L q) = ql" and "ql \<noteq> []"
  shows "(\<forall>r \<in> set (search_in_books L BOOKS q sc f).
            (r_book r, r_category r, r_chapter r) \<in> set (traversal BOOKS) \<and>
            \<not> filter_skips f (r_book r) \<and>
            r_matches r = chapter_matches L q ql sc (r_chapter r) \<and>
            r_matches r \<noteq> [] \<and>
            relevance_score r = length (r_matches r)) \<and>
         (\<forall>(b, c, ch) \<in> set (traversal BOOKS).
            \<not> filter_skips f b \<and> chapter_matches L q ql sc ch \<noteq> [] \<longrightarrow>
            \<lparr>r_book = b, r_category = c, r_chapter = ch,
             r_matches = chapter_matches L q ql sc ch,
             relevance_score = length (chapter_matches L q ql sc ch)\<rparr>
              \<in> set (search_in_books L BOOKS q sc f))"
  using assms
  by (auto simp: search_in_books_walk set_sort_reverse visit_def split: if_splits)

theorem search_result_iff_matches_witness:
  "py_strip (str_lower ascii_lib (py ''Huang'')) = py ''huang'' \<and> py ''huang'' \<noteq> [] \<and>
   map (\<lambda>r. (ch_id (r_chapter r), relevance_score r))
     (search_in_books ascii_lib [ex_book] (py ''Huang'') (py ''all'') None) =
     [(2, 3), (1, 2), (3, 2)] \<and>
   map relevance_score (search_in_books ascii_lib [ex_book] (py ''Huang'') (py ''all'') None) =
     map (length \<circ> r_matches)
       (search_in_books ascii_lib [ex_book] (py ''Huang'') (py ''all'') None) \<and>
   map r_matches (search_in_books ascii_lib [ex_book] (py ''Huang'') (py ''all'') None) =
     map (chapter_matches ascii_lib (py ''Huang'') (py ''huang'') (py ''all'') \<circ> r_chapter)
       (search_in_books ascii_lib [ex_book] (py ''Huang'') (py ''all'') None) \<and>
   \<lparr>r_book = ex_book, r_category = ex_category, r_chapter = ex_chapter 2 (py ''Huang''),
    r_matches = chapter_matches ascii_lib (py ''Huang'') (py ''huang'') (py ''all'')
                  (ex_chapter 2 (py ''Huang'')),
    relevance_score = 3\<rparr>
     \<in> set (search_in_books ascii_lib [ex_book] (py ''Huang'') (py ''all'') None)"
proof -
  let ?S = "search_in_books ascii_lib [ex_book] (py ''Huang'') (py ''all'') None"
  let ?cm = "chapter_matches ascii_lib (py ''Huang'') (py ''huang'') (py ''all'')"
  have h1: "py_strip (str_lower ascii_lib (py ''Huang'')) = py ''huang''"
    by (rule ex_query_lower)
  have h2: "py ''huang'' \<noteq> []"
    by (simp add: py_def)
  note T = search_result_iff_matches [OF h1 h2, of "[ex_book]" "py ''all''" None]
  from T have A: "\<forall>r \<in> set ?S. r_matches r = ?cm (r_chapter r) \<and>
                    relevance_score r = length (r_matches r)"
    by blast
  from A have m1: "map relevance_score ?S = map (length \<circ> r_matches) ?S"
    by simp
  from A have m2: "map r_matches ?S = map (?cm \<circ> r_chapter) ?S"
    by simp
  have mem: "(ex_book, ex_category, ex_chapter 2 (py ''Huang'')) \<in> set (traversal [ex_book])"
    by (simp add: ex_traversal)
  have len: "length (?cm (ex_chapter 2 (py ''Huang''))) = 3"
    by (rule ex_matches_length)
  then have ne: "?cm (ex_chapter 2 (py ''Huang'')) \<noteq> []"
    by auto
  have ns: "\<not> filter_skips None ex_book"
    by (simp add: filter_skips_def)
  from T mem ns ne
  have "\<lparr>r_book = ex_book, r_category = ex_category, r_chapter = ex_chapter 2 (py ''Huang''),
         r_matches = ?cm (ex_chapter 2 (py ''Huang'')),
         relevance_score = length (?cm (ex_chapter 2 (py ''Huang'')))\<rparr> \<in> set ?S"
    by blast
  then have m3: "\<lparr>r_book = ex_book, r_category = ex_category, r_chapter = ex_chapter 2 (py ''Huang''),
         r_matches = ?cm (ex_chapter 2 (py ''Huang'')), relevance_score = 3\<rparr> \<in> set ?S"
    by (simp only: len)
  from h1 h2 ex_search_scores m1 m2 m3 show ?thesis
    by (intro conjI)
qed

text \<open>
  C6, as stated, fails for the empty string as filter: it is taken as no filter, so books whose
  id is not the filter are searched, and the result is not empty although no book has the empty
  id.
\<close>

theorem search_empty_filter_counterexample:
  "map (b_id \<circ> r_book)
     (search_in_books ascii_lib [ex_book] (py ''Huang'') (py ''all'') (Some [])) =
     [py ''shiji'', py ''shiji'', py ''shiji''] \<and>
   map b_id [ex_book] = [py ''shiji''] \<and> py ''shiji'' \<noteq> []"
  using ex_search_empty_filter by (simp add: ex_book_def py_def)

text \<open>
  C6 (amended).  With a book filter that is not the empty string, every result is of a book
  whose id is the filter, and the result is empty if no book has that id; with the empty
  string as filter the search returns what it returns without a filter.
\<close>

theorem search_book_filter:
  "(flt \<noteq> [] \<longrightarrow>
      (\<forall>r \<in> set (search_in_books L BOOKS q sc (Some flt)). b_id (r_book r) = flt) \<and>
      (flt \<notin> b_id ` set BOOKS \<longrightarrow> search_in_books L BOOKS q sc (Some flt) = [])) \<and>
   search_in_books L BOOKS q sc (Some []) = search_in_books L BOOKS q sc None"
proof (intro conjI impI)
  have skip: "\<And>b. filter_skips (Some []) b = filter_skips None b"
    by (simp add: filter_skips_def)
  have eq: "\<And>ql. search_book L q ql sc (Some []) = search_book L q ql sc None"
    by (intro ext) (simp add: search_book_def skip)
  show "search_in_books L BOOKS q sc (Some []) = search_in_books L BOOKS q sc None"
    by (simp add: search_in_books_def Let_def eq)
next
  assume ne: "flt \<noteq> []"
  show "\<forall>r \<in> set (search_in_books L BOOKS q sc (Some flt)). b_id (r_book r) = flt"
  proof (cases "py_strip (str_lower L q) = []")
    case True
    then show ?thesis by (simp add: search_in_books_empty_query)
  next
    case False
    with ne show ?thesis
      by (auto simp: search_in_books_walk set_sort_reverse visit_def filter_skips_def
          split: if_splits)
  qed
next
  assume ne: "flt \<noteq> []" and absent: "flt \<notin> b_id ` set BOOKS"
  show "search_in_books L BOOKS q sc (Some flt) = []"
  proof (cases "py_strip (str_lower L q) = []")
    case True
    then show ?thesis by (simp add: search_in_books_empty_query)
  next
    case False
    have in_trav: "\<And>b c ch. (b, c, ch) \<in> set (traversal BOOKS) \<Longrightarrow> b \<in> set BOOKS"
      by (auto simp: traversal_def)
    have "\<forall>t \<in> set (traversal BOOKS). visit L q (py_strip (str_lower L q)) sc (Some flt) t = []"
      using absent ne in_trav
      by (auto simp: visit_def filter_skips_def)
    then have c: "concat (map (visit L q (py_strip (str_lower L q)) sc (Some flt)) (traversal BOOKS)) = []"
      by simp
    show ?thesis
      unfolding search_in_books_walk [OF False] c by (simp add: sort_reverse_def)
  qed
qed

theorem search_book_filter_witness:
  "py ''shiji'' \<noteq> [] \<and> py ''hanshu'' \<noteq> [] \<and>
   search_in_books ascii_lib [ex_book] (py ''Huang'') (py ''all'') (Some (py ''shiji'')) \<noteq> [] \<and>
   set (map (b_id \<circ> r_book)
          (search_in_books ascii_lib [ex_book] (py ''Huang'') (py ''all'') (Some (py ''shiji''))))
     = {py ''shiji''} \<and>
   map b_id [ex_book] = [py ''shiji''] \<and> py ''hanshu'' \<noteq> py ''shiji'' \<and>
   search_in_books ascii_lib [ex_book] (py ''Huang'') (py ''all'') (Some (py ''hanshu'')) = [] \<and>
   search_in_books ascii_lib [ex_book] (py ''Huang'') (py ''all'') (Some []) =
     search_in_books ascii_lib [ex_book] (py ''Huang'') (py ''all'') None \<and>
   map (\<lambda>r. (ch_id (r_chapter r), relevance_score r))
     (search_in_books ascii_lib [ex_book] (py ''Huang'') (py ''all'') (Some [])) =
     [(2, 3), (1, 2), (3, 2)]"
proof -
  let ?S = "search_in_books ascii_lib [ex_book] (py ''Huang'') (py ''all'') (Some (py ''shiji''))"
  note T1 = search_book_filter [of "py ''shiji''" ascii_lib "[ex_book]" "py ''Huang''" "py ''all''"]
  note T2 = search_book_filter [of "py ''hanshu''" ascii_lib "[ex_book]" "py ''Huang''" "py ''all''"]
  have h1: "py ''shiji'' \<noteq> []" and h2: "py ''hanshu'' \<noteq> []"
    by (simp_all add: py_def)
  have ids: "map b_id [ex_book] = [py ''shiji'']"
    by (simp add: ex_book_def)
  have d: "py ''hanshu'' \<noteq> py ''shiji''"
    by (simp add: py_def)
  from ids d have h3: "py ''hanshu'' \<notin> b_id ` set [ex_book]"
    by simp
  have ne: "?S \<noteq> []"
    by (simp add: ex_eval)
  from T1 h1 have A: "\<forall>r \<in> set ?S. b_id (r_book r) = py ''shiji''"
    by blast
  from ne obtain r rs where "?S = r # rs"
    by (cases ?S) auto
  with A have s: "set (map (b_id \<circ> r_book) ?S) = {py ''shiji''}"
    by auto
  from T2 h2 h3
  have e: "search_in_books ascii_lib [ex_book] (py ''Huang'') (py ''all'') (Some (py ''hanshu'')) = []"
    by blast
  from T1 have n: "search_in_books ascii_lib [ex_book] (py ''Huang'') (py ''all'') (Some []) =
      search_in_books ascii_lib [ex_book] (py ''Huang'') (py ''all'') None"
    by blast
  from ex_search_scores have sc: "map (\<lambda>r. (ch_id (r_chapter r), relevance_score r))
      (search_in_books ascii_lib [ex_book] (py ''Huang'') (py ''all'') (Some [])) =
      [(2, 3), (1, 2), (3, 2)]"
    by (simp only: n)
  from h1 h2 ne s ids d e n sc show ?thesis
    by (intro conjI)
qed

text \<open>
  C10.  With a scope other than \<open>'all'\<close>, \<open>'title'\<close> and \<open>'content'\<close> the search returns the empty
  list.
\<close>

theorem search_unknown_scope_empty:
  "sc \<noteq> py ''all'' \<Longrightarrow> sc \<noteq> py ''title'' \<Longrightarrow> sc \<noteq> py ''content'' \<Longrightarrow>
   search_in_books L BOOKS q sc f = []"
proof (cases "py_strip (str_lower L q) = []")
  case True
  then show ?thesis by (simp add: search_in_books_empty_query)
next
  case False
  assume "sc \<noteq> py ''all''" "sc \<noteq> py ''title''" "sc \<noteq> py ''content''"
  then have "\<And>t. visit L q (py_strip (str_lower L q)) sc f t = []"
    by (simp add: visit_def chapter_matches_other_scope split: prod.split)
  then have c: "concat (map (visit L q (py_strip (str_lower L q)) sc f) (traversal BOOKS)) = []"
    by simp
  show ?thesis
    unfolding search_in_books_walk [OF False] c by (simp add: sort_reverse_def)
qed

theorem search_unknown_scope_empty_witness:
  "py ''titles'' \<noteq> py ''all'' \<and> py ''titles'' \<noteq> py ''title'' \<and> py ''titles'' \<noteq> py ''content'' \<and>
   search_in_books ascii_lib [ex_book] (py ''Huang'') (py ''titles'') None = []"
proof -
  have h: "py ''titles'' \<noteq> py ''all''" "py ''titles'' \<noteq> py ''title''"
    "py ''titles'' \<noteq> py ''content''"
    by (simp_all add: py_def)
  from search_unknown_scope_empty [OF h, of ascii_lib "[ex_book]" "py ''Huang''" None] h
  show ?thesis by simp
qed

section \<open>Builder claims\<close>

text \<open>
  C2.  The claim is that building the corpus never raises.  The builder of build\_static.py reads
  the key \<open>'paragraphs'\<close> of what its parser returns, and that parser's dictionary has no such
  key: on a tree with a chapter file in a category directory it raises \<open>KeyError\<close>, whatever the
  branch for the old layout does.  The tree is the one app.py builds the example corpus from.
\<close>

theorem static_builder_raises_KeyError:
  "bs_load_books_from_raw old_format (Some ex_tree) = Inl KeyError"
  by (simp add: bs_load_books_from_raw_def isdir_def listdir_def ex_tree_def py_def bs_load_book_def
      path_join_def bind_err_def bs_load_category_def book_config_of_def book_configs_def
      cat_title_of_def py_endswith_def bs_load_chapter_def bs_parse_path_def read_text_def
      chapter_title_of_def ex_text_def bs_parse_three_parallel_file_def py_strip_def is_space_def
      py_split_def NL_def NLNL_def dict_get_def Let_def List.enumerate_eq_zip)

text \<open>
  The builder of app.py returns the empty corpus for a missing root, and raises for a root
  directory that may not be listed.
\<close>

lemma unreadable_root_raises:
  "load_books_from_raw (Some (Dir (Inl PermissionError))) = Inl PermissionError"
  by (simp add: load_books_from_raw_def isdir_def listdir_def bind_err_def)

lemma missing_root_is_empty: "load_books_from_raw None = Inr []"
  by (simp add: load_books_from_raw_def isdir_def)



end
